theory Spec2Isabelle
  imports Complex_Main
begin

section \<open>Values shared by both variants of \<open>server.js\<close>\<close>

text \<open>
  \<open>src/server.js\<close> holds two variants of the Express application. Both register
  \<open>POST /api/withdraw\<close>: the legacy variant (lines 49-148) simulates the payout, the
  gateway variant (lines 309-389) routes it to Stripe or Flutterwave and notifies through
  Pusher.

  Request fields are typed as in the data model of the specification: \<open>amount\<close> is a
  number, the other fields are strings, and every field may be absent from the JSON body
  (\<open>None\<close> is JavaScript's \<open>undefined\<close>). Numbers are rationals with exact arithmetic.
  A string that JavaScript builds by concatenating text and numbers is kept as the list of
  its pieces, so that the decimal rendering of a number stays symbolic.
\<close>

datatype piece = Txt string | Num rat

type_synonym jstext = "piece list"

text \<open>Truthiness of a string-or-undefined value: \<open>undefined\<close> and \<open>''\<close> are falsy.\<close>

fun truthy :: "string option \<Rightarrow> bool" where
  "truthy None = False"
| "truthy (Some s) = (s \<noteq> [])"

text \<open>\<open>v || d\<close> for a string-or-undefined \<open>v\<close> and a string literal \<open>d\<close>.\<close>

definition or_default :: "string option \<Rightarrow> string \<Rightarrow> string" where
  "or_default v d = (case v of None \<Rightarrow> d | Some s \<Rightarrow> if s \<noteq> [] then s else d)"

text \<open>A value interpolated into a template literal: \<open>undefined\<close> renders as its name.\<close>

fun interpolate :: "string option \<Rightarrow> string" where
  "interpolate None = ''undefined''"
| "interpolate (Some s) = s"

text \<open>\<open>s.substr(start, len)\<close> for non-negative arguments.\<close>

definition substr :: "nat \<Rightarrow> nat \<Rightarrow> string \<Rightarrow> string" where
  "substr start len s = take len (drop start s)"

text \<open>\<open>s.toUpperCase()\<close> on ASCII text (the base-36 rendering of a number is ASCII).\<close>

definition upper_char :: "char \<Rightarrow> char" where
  "upper_char c =
     (let n = (of_char c :: nat) in if 97 \<le> n \<and> n \<le> 122 then char_of (n - 32) else c)"

definition toUpperCase :: "string \<Rightarrow> string" where
  "toUpperCase s = map upper_char s"

text \<open>
  The integer \<open>Math.round(x * 100)\<close>, kept by its argument \<open>x\<close>. JavaScript rounds
  the product to a double before \<open>Math.round\<close> sees it, so the result is not always the
  rounding of the exact product, and it is left uncomputed here.
\<close>

datatype minor_units = Math_round_times_100 rat

section \<open>The gateway variant\<close>

subsection \<open>Request, provider payloads and effects\<close>

record withdraw_request =
  amount :: "rat option"
  accountNumber :: "string option"
  bankCode :: "string option"
  accountName :: "string option"
  withdrawalMethod :: "string option"
  phoneNumber :: "string option"
  paymentMethod :: "string option"

text \<open>The argument of \<open>stripe.paymentIntents.create\<close>.\<close>

record stripe_params =
  sp_amount :: minor_units
  sp_currency :: string
  sp_description :: jstext
  sp_metadata_transactionId :: jstext
  sp_metadata_withdrawalMethod :: string

record payment_intent =
  pi_id :: string
  pi_client_secret :: string

text \<open>The URL, body and headers of the \<open>axios.post\<close> to Flutterwave.\<close>

record flutterwave_params =
  fp_url :: string
  account_bank :: string
  account_number :: string
  fp_amount :: rat
  narration :: jstext
  beneficiary_name :: string
  currency :: string
  fp_reference :: jstext
  header_Authorization :: string
  header_Content_Type :: string

text \<open>
  \<open>flutterwaveResponse.data\<close>: the fields the adapter reads. \<open>fw_data_id\<close> is
  \<open>data.data?.id\<close>, absent when \<open>data.data\<close> or its \<open>id\<close> is.
\<close>

record flutterwave_body =
  fw_status :: "string option"
  fw_data_id :: "string option"

text \<open>The payload of \<open>pusher.trigger\<close>.\<close>

record pusher_payload =
  pp_transactionId :: jstext
  pp_amount :: rat
  pp_method :: "string option"
  pp_status :: string
  pp_timestamp :: string
  pp_accountName :: "string option"
  pp_reference :: jstext

text \<open>What an adapter returns: the \<open>paymentDetails\<close> of the response.\<close>

datatype provider_response =
  Stripe_details (gateway: string) (paymentId: string) (pr_status: string)
    (clientSecret: string)
| Flutterwave_details (gateway: string) (transferId: "string option")
    (fw_pr_status: "string option") (pr_reference: jstext)

text \<open>
  The error a rejected \<open>axios.post\<close> carries: its \<open>message\<close>, and the body of the
  upstream response (\<open>error.response?.data\<close>) when there was one.
\<close>

record axios_error =
  ae_response_data :: "string option"
  ae_message :: string

text \<open>
  What is written to the console, by content. \<open>Flutterwave_API_TypeError\<close> is the line
  that carries the message of the \<open>TypeError\<close> raised by reading \<open>.data\<close> of a null
  body; the text of that message is the engine's.
\<close>

datatype log_entry =
  Stripe_intent_created string
| Flutterwave_transfer_initiated "flutterwave_body option"
| Flutterwave_API_error string
| Flutterwave_API_TypeError
| Payment_processing_error string
| Pusher_notification_error string

text \<open>The effects of a request on the outside world, in the order they happen.\<close>

datatype event =
  Date_now
| New_Date
| Math_random
| Stripe_create stripe_params
| Axios_post flutterwave_params
| Pusher_trigger string string pusher_payload
| Console_log log_entry
| Console_error log_entry

text \<open>
  The outside world as one request sees it: the clock readings, the random draw (as
  \<open>Math.random().toString(36)\<close> renders it), the environment variable, and the outcome of
  each external call (\<open>Inl\<close> is the error it rejects with: its message for Stripe and
  Pusher, the \<open>axios_error\<close> for Flutterwave). An \<open>axios.post\<close> that resolves with
  no body (\<open>data\<close> null) is \<open>Inr None\<close>.
\<close>

record world =
  now_transaction :: int
  now_reference :: int
  now_iso :: string
  random36 :: string
  FLUTTERWAVE_SECRET_KEY :: "string option"
  stripe_paymentIntents_create :: "stripe_params \<Rightarrow> string + payment_intent"
  axios_post :: "flutterwave_params \<Rightarrow> axios_error + flutterwave_body option"
  pusher_trigger :: "string \<Rightarrow> string \<Rightarrow> pusher_payload \<Rightarrow> string + unit"

subsection \<open>The response\<close>

record success_body =
  message :: jstext
  transactionId :: jstext
  reference :: jstext
  paymentGateway :: string
  fees :: rat
  netAmount :: rat
  estimatedCompletion :: string
  paymentDetails :: provider_response

text \<open>\<open>Failure m\<close> is \<open>{success: false, message: m}\<close>; \<open>Success b\<close> has \<open>success: true\<close>.\<close>

datatype response_body = Failure string | Success success_body

record http_response =
  status :: nat
  body :: response_body

subsection \<open>The provider adapters\<close>

text \<open>\<open>processStripePayment\<close>, lines 392-416.\<close>

definition processStripePayment ::
  "world \<Rightarrow> rat \<Rightarrow> string option \<Rightarrow> jstext \<Rightarrow> (string + provider_response) \<times> event list"
where
  "processStripePayment w amt description txn =
     (let params = \<lparr> sp_amount = Math_round_times_100 amt,
                      sp_currency = ''kes'',
                      sp_description =
                        [Txt ''Withdrawal ''] @ txn @ [Txt '' for '', Txt (interpolate description)],
                      sp_metadata_transactionId = txn,
                      sp_metadata_withdrawalMethod = ''bank'' \<rparr>
      in case stripe_paymentIntents_create w params of
           Inl err \<Rightarrow> (Inl (''Stripe error: '' @ err), [Stripe_create params])
         | Inr paymentIntent \<Rightarrow>
             (Inr (Stripe_details ''stripe'' (pi_id paymentIntent) ''processing''
                     (pi_client_secret paymentIntent)),
              [Stripe_create params, Console_log (Stripe_intent_created (pi_id paymentIntent))]))"

text \<open>
  \<open>processFlutterwavePayment\<close>, lines 419-452; \<open>flutterwave_request\<close> is the body
  and the headers it posts. The \<open>catch\<close> logs \<open>error.response?.data || error.message\<close>.
  Reading \<open>.data\<close> of a null body throws inside the \<open>try\<close>, after the log line, and is
  caught like a rejected call.
\<close>

definition flutterwave_request ::
  "world \<Rightarrow> rat \<Rightarrow> string option \<Rightarrow> string option \<Rightarrow> jstext \<Rightarrow> flutterwave_params"
where
  "flutterwave_request w amt phone name txn =
     \<lparr> fp_url = ''https://api.flutterwave.com/v3/transfers'',
       account_bank = ''999999'',
       account_number = or_default phone ''1234567890'',
       fp_amount = amt,
       narration = [Txt ''Withdrawal ''] @ txn,
       beneficiary_name = or_default name ''Beneficiary'',
       currency = ''KES'',
       fp_reference = txn,
       header_Authorization = ''Bearer '' @ interpolate (FLUTTERWAVE_SECRET_KEY w),
       header_Content_Type = ''application/json'' \<rparr>"

definition processFlutterwavePayment ::
  "world \<Rightarrow> rat \<Rightarrow> string option \<Rightarrow> string option \<Rightarrow> jstext
     \<Rightarrow> (string + provider_response) \<times> event list"
where
  "processFlutterwavePayment w amt phone name txn =
     (let params = flutterwave_request w amt phone name txn
      in case axios_post w params of
           Inl err \<Rightarrow>
             (Inl ''Flutterwave processing failed'',
              [Axios_post params,
               Console_error
                 (Flutterwave_API_error (or_default (ae_response_data err) (ae_message err)))])
         | Inr None \<Rightarrow>
             (Inl ''Flutterwave processing failed'',
              [Axios_post params, Console_log (Flutterwave_transfer_initiated None),
               Console_error Flutterwave_API_TypeError])
         | Inr (Some d) \<Rightarrow>
             (Inr (Flutterwave_details ''flutterwave'' (fw_data_id d) (fw_status d) txn),
              [Axios_post params, Console_log (Flutterwave_transfer_initiated (Some d))]))"

subsection \<open>The withdrawal handler\<close>

text \<open>
  \<open>app.post('/api/withdraw')\<close>, lines 309-389, in the order of the source: the
  identifiers (lines 329-330), the fee (line 331), the routing \<open>try\<close> (lines 336-345),
  the notification \<open>try\<close> (lines 355-367) and the handler that composes them.
\<close>

definition new_transactionId :: "world \<Rightarrow> jstext" where
  "new_transactionId w =
     [Txt ''TXN_'', Num (of_int (now_transaction w)), Txt ''_'',
      Txt (toUpperCase (substr 2 9 (random36 w)))]"

definition new_reference :: "world \<Rightarrow> jstext" where
  "new_reference w = [Txt ''REF_'', Num (of_int (now_reference w))]"

definition fees_for :: "withdraw_request \<Rightarrow> rat" where
  "fees_for req = (if withdrawalMethod req = Some ''bank'' then 50 else 25)"

definition route_payment ::
  "world \<Rightarrow> withdraw_request \<Rightarrow> rat \<Rightarrow> jstext \<Rightarrow> (string + provider_response) \<times> event list"
where
  "route_payment w req a txn =
     (if paymentMethod req = Some ''stripe'' then
        processStripePayment w a (accountName req) txn
      else if paymentMethod req = Some ''flutterwave'' then
        processFlutterwavePayment w a (phoneNumber req) (accountName req) txn
      else
        processFlutterwavePayment w a (phoneNumber req) (accountName req) txn)"

definition withdrawal_event ::
  "world \<Rightarrow> withdraw_request \<Rightarrow> rat \<Rightarrow> jstext \<Rightarrow> jstext \<Rightarrow> pusher_payload"
where
  "withdrawal_event w req a txn ref =
     \<lparr> pp_transactionId = txn, pp_amount = a, pp_method = withdrawalMethod req,
       pp_status = ''completed'', pp_timestamp = now_iso w,
       pp_accountName = accountName req, pp_reference = ref \<rparr>"

definition notify :: "world \<Rightarrow> pusher_payload \<Rightarrow> event list" where
  "notify w payload =
     (case pusher_trigger w ''withdrawal-channel'' ''withdrawal-event'' payload of
        Inl err \<Rightarrow>
          [New_Date, Pusher_trigger ''withdrawal-channel'' ''withdrawal-event'' payload,
           Console_error (Pusher_notification_error err)]
      | Inr _ \<Rightarrow>
          [New_Date, Pusher_trigger ''withdrawal-channel'' ''withdrawal-event'' payload])"

text \<open>
  \<open>!amount\<close> holds for an absent amount and for 0. Nothing outside the two inner
  \<open>try\<close> blocks throws on a request of this type, so the outer \<open>catch\<close> (HTTP 500)
  has no branch here.
\<close>

definition withdraw :: "world \<Rightarrow> withdraw_request \<Rightarrow> http_response \<times> event list" where
  "withdraw w req =
     (case amount req of
        None \<Rightarrow> (\<lparr> status = 400, body = Failure ''Amount must be at least KES 100'' \<rparr>, [])
      | Some a \<Rightarrow>
          if a = 0 \<or> a < 100 then
            (\<lparr> status = 400, body = Failure ''Amount must be at least KES 100'' \<rparr>, [])
          else if a > 1000000 then
            (\<lparr> status = 400, body = Failure ''Amount cannot exceed KES 1,000,000'' \<rparr>, [])
          else
            let txn = new_transactionId w;
                ref = new_reference w;
                fee = fees_for req;
                net = a - fee;
                started = [Date_now, Math_random, Date_now]
            in case route_payment w req a txn of
                 (Inl err, called) \<Rightarrow>
                   (\<lparr> status = 400, body = Failure (''Payment processing failed: '' @ err) \<rparr>,
                    started @ called @ [Console_error (Payment_processing_error err)])
               | (Inr details, called) \<Rightarrow>
                   (\<lparr> status = 200,
                       body = Success
                         \<lparr> message = [Txt ''Withdrawal of KES '', Num a,
                                      Txt '' processed successfully''],
                           transactionId = txn,
                           reference = ref,
                           paymentGateway = or_default (paymentMethod req) ''flutterwave'',
                           fees = fee,
                           netAmount = net,
                           estimatedCompletion = ''Instant to 24 hours'',
                           paymentDetails = details \<rparr> \<rparr>,
                    started @ called @ notify w (withdrawal_event w req a txn ref)))"

subsection \<open>Reading the record of effects\<close>

datatype adapter = Card_Network | Transfer_Network

text \<open>The provider adapters a request invoked, each seen by its upstream call.\<close>

fun adapter_calls :: "event list \<Rightarrow> adapter list" where
  "adapter_calls [] = []"
| "adapter_calls (Stripe_create p # es) = Card_Network # adapter_calls es"
| "adapter_calls (Axios_post p # es) = Transfer_Network # adapter_calls es"
| "adapter_calls (e # es) = adapter_calls es"

text \<open>The notifications a request attempted.\<close>

fun notifications :: "event list \<Rightarrow> pusher_payload list" where
  "notifications [] = []"
| "notifications (Pusher_trigger c e p # es) = p # notifications es"
| "notifications (e # es) = notifications es"

text \<open>\<open>success: true\<close> in the response.\<close>

fun succeeded :: "http_response \<Rightarrow> bool" where
  "succeeded r = (case body r of Success b \<Rightarrow> True | Failure m \<Rightarrow> False)"

section \<open>The legacy variant\<close>

text \<open>
  \<open>app.post('/api/withdraw')\<close>, lines 49-148. It reads \<open>method\<close> and
  \<open>accountDetails\<close> where the gateway variant reads \<open>withdrawalMethod\<close> and
  \<open>accountNumber\<close>, calls no provider, and answers every request with \<open>res.json\<close>
  (HTTP 200).
\<close>

record legacy_request =
  lg_amount :: "rat option"
  lg_method :: "string option"
  lg_accountDetails :: "string option"
  lg_phoneNumber :: "string option"
  lg_accountName :: "string option"

datatype legacy_log =
  Withdrawal_request "rat option" "string option" "string option" "string option"
| Withdrawal_SUCCESS rat "string option"
| Withdrawal_FAILED rat "string option"

datatype legacy_event =
  L_Console_log legacy_log
| L_Delay nat
| L_Date_now
| L_New_Date
| L_Math_random

text \<open>
  The clock readings and the two random draws: the first as
  \<open>Math.random().toString(36)\<close> renders it, the second as the number compared with 0.1.
\<close>

record legacy_world =
  lw_now_transaction :: int
  lw_random36 :: string
  lw_random_outcome :: rat
  lw_now_iso :: string
  lw_now_reference :: int

record legacy_completed =
  lc_message :: jstext
  lc_transactionId :: jstext
  lc_amount :: rat
  lc_fees :: rat
  lc_netAmount :: rat
  lc_method :: "string option"
  lc_status :: string
  lc_timestamp :: string
  lc_reference :: jstext

text \<open>
  \<open>Rejected m\<close> is \<open>{success: false, message: m}\<close>, \<open>Completed\<close> has
  \<open>success: true\<close>, and \<open>Processing_failed m t s\<close> is
  \<open>{success: false, message: m, transactionId: t, status: s}\<close>.
\<close>

datatype legacy_body =
  Rejected string
| Completed legacy_completed
| Processing_failed string jstext string

record legacy_response =
  lg_status :: nat
  lg_body :: legacy_body

definition demoBalance :: rat where
  "demoBalance = 100000"

text \<open>\<open>/^[0-9]{10}$/.test(s)\<close>: exactly ten characters, each a decimal digit.\<close>

definition is_digit :: "char \<Rightarrow> bool" where
  "is_digit c = (c \<in> set ''0123456789'')"

definition test_ten_digits :: "string \<Rightarrow> bool" where
  "test_ten_digits s = (length s = 10 \<and> list_all is_digit s)"

definition legacy_reject :: "string \<Rightarrow> legacy_response" where
  "legacy_reject m = \<lparr> lg_status = 200, lg_body = Rejected m \<rparr>"

definition legacy_withdraw ::
  "legacy_world \<Rightarrow> legacy_request \<Rightarrow> legacy_response \<times> legacy_event list"
where
  "legacy_withdraw w req =
     (let logged = [L_Console_log (Withdrawal_request (lg_amount req) (lg_method req)
                      (lg_accountDetails req) (lg_phoneNumber req))]
      in case lg_amount req of
        None \<Rightarrow> (legacy_reject ''Amount must be at least KES 100'', logged)
      | Some a \<Rightarrow>
          if a = 0 \<or> a < 100 then
            (legacy_reject ''Amount must be at least KES 100'', logged)
          else if a > demoBalance then
            (legacy_reject ''Insufficient balance. Available: KES 100000'', logged)
          else if a > 1000000 then
            (legacy_reject ''Maximum withdrawal is KES 1,000,000'', logged)
          else if \<not> truthy (lg_method req)
                  \<or> lg_method req \<notin> set [Some ''bank'', Some ''mpesa''] then
            (legacy_reject ''Please select withdrawal method (bank or mpesa)'', logged)
          else if lg_method req = Some ''bank''
                  \<and> (\<not> truthy (lg_accountDetails req) \<or> \<not> truthy (lg_accountName req)) then
            (legacy_reject ''Bank account details required'', logged)
          else if lg_method req \<noteq> Some ''bank'' \<and> lg_method req = Some ''mpesa''
                  \<and> (\<not> truthy (lg_phoneNumber req)
                       \<or> \<not> test_ten_digits (interpolate (lg_phoneNumber req))) then
            (legacy_reject ''Valid 10-digit M-Pesa number required'', logged)
          else
            let txn = [Txt ''txn_'', Num (of_int (lw_now_transaction w)), Txt ''_'',
                       Txt (substr 2 9 (lw_random36 w))];
                fee = (if lg_method req = Some ''bank'' then 50 else 25);
                net = a - fee;
                isSuccess = (lw_random_outcome w > 1 / 10);
                ran = logged @ [L_Delay 1500, L_Date_now, L_Math_random, L_Math_random]
            in if isSuccess then
                 (\<lparr> lg_status = 200,
                     lg_body = Completed
                       \<lparr> lc_message = [Txt ''Withdrawal of KES '', Num a,
                                         Txt '' processed successfully!''],
                         lc_transactionId = txn,
                         lc_amount = a,
                         lc_fees = fee,
                         lc_netAmount = net,
                         lc_method = lg_method req,
                         lc_status = ''completed'',
                         lc_timestamp = lw_now_iso w,
                         lc_reference = [Txt ''REF'', Num (of_int (lw_now_reference w))] \<rparr> \<rparr>,
                  ran @ [L_Console_log (Withdrawal_SUCCESS a (lg_method req)),
                         L_New_Date, L_Date_now])
               else
                 (\<lparr> lg_status = 200,
                     lg_body = Processing_failed ''Payment processing failed. Please try again.''
                                 txn ''failed'' \<rparr>,
                  ran @ [L_Console_log (Withdrawal_FAILED a (lg_method req))]))"

section \<open>Sample worlds and requests\<close>

text \<open>A world in which every external call succeeds.\<close>

definition calm_world :: world where
  "calm_world =
     \<lparr> now_transaction = 1700000000000, now_reference = 1700000000001,
       now_iso = ''2023-11-14T22:13:20.002Z'', random36 = ''0.k3j5h2l1m9xq'',
       FLUTTERWAVE_SECRET_KEY = Some ''FLWSECK_TEST'',
       stripe_paymentIntents_create =
         (\<lambda>p. Inr \<lparr> pi_id = ''pi_1'', pi_client_secret = ''pi_1_secret'' \<rparr>),
       axios_post =
         (\<lambda>p. Inr (Some \<lparr> fw_status = Some ''success'', fw_data_id = Some ''4242'' \<rparr>)),
       pusher_trigger = (\<lambda>c e p. Inr ()) \<rparr>"

text \<open>The request of the specification's first scenario.\<close>

definition bank_request :: withdraw_request where
  "bank_request =
     \<lparr> amount = Some 1000, accountNumber = Some ''1234567890'', bankCode = Some ''01'',
       accountName = Some ''John Doe'', withdrawalMethod = Some ''bank'',
       phoneNumber = None, paymentMethod = Some ''stripe'' \<rparr>"

text \<open>A request that names an amount only.\<close>

definition bare_request :: withdraw_request where
  "bare_request =
     \<lparr> amount = Some 1000, accountNumber = None, bankCode = None, accountName = None,
       withdrawalMethod = None, phoneNumber = None, paymentMethod = None \<rparr>"

definition legacy_sample_world :: legacy_world where
  "legacy_sample_world =
     \<lparr> lw_now_transaction = 1700000000000, lw_random36 = ''0.k3j5h2l1m9xq'',
       lw_random_outcome = 1 / 2, lw_now_iso = ''2023-11-14T22:13:21.502Z'',
       lw_now_reference = 1700000001502 \<rparr>"

text \<open>A request whose payment method is neither of the two gateways.\<close>

definition paypal_request :: withdraw_request where
  "paypal_request = bare_request\<lparr> paymentMethod := Some ''paypal'' \<rparr>"

text \<open>Worlds in which Stripe declines, and in which Pusher is unreachable.\<close>

definition declining_world :: world where
  "declining_world = calm_world\<lparr> stripe_paymentIntents_create := \<lambda>p. Inl ''card declined'' \<rparr>"

definition unnotified_world :: world where
  "unnotified_world = calm_world\<lparr> pusher_trigger := \<lambda>c e p. Inl ''pusher down'' \<rparr>"

definition legacy_bare_request :: legacy_request where
  "legacy_bare_request =
     \<lparr> lg_amount = Some 1000, lg_method = None, lg_accountDetails = None,
       lg_phoneNumber = None, lg_accountName = None \<rparr>"

section \<open>Properties of the gateway variant\<close>

subsection \<open>The record of effects, piece by piece\<close>

lemma adapter_calls_append: "adapter_calls (xs @ ys) = adapter_calls xs @ adapter_calls ys"
  by (induction xs rule: adapter_calls.induct) simp_all

lemma notifications_append: "notifications (xs @ ys) = notifications xs @ notifications ys"
  by (induction xs rule: notifications.induct) simp_all

lemma stripe_calls: "adapter_calls (snd (processStripePayment w a d t)) = [Card_Network]"
  by (simp add: processStripePayment_def Let_def split: sum.split)

lemma flutterwave_calls:
  "adapter_calls (snd (processFlutterwavePayment w a p n t)) = [Transfer_Network]"
  by (simp add: processFlutterwavePayment_def Let_def split: sum.split option.split)

lemma stripe_notifications: "notifications (snd (processStripePayment w a d t)) = []"
  by (simp add: processStripePayment_def Let_def split: sum.split)

lemma flutterwave_notifications:
  "notifications (snd (processFlutterwavePayment w a p n t)) = []"
  by (simp add: processFlutterwavePayment_def Let_def split: sum.split option.split)

lemma route_calls:
  "adapter_calls (snd (route_payment w req a t)) =
     [if paymentMethod req = Some ''stripe'' then Card_Network else Transfer_Network]"
  by (simp add: route_payment_def stripe_calls flutterwave_calls)

lemma route_notifications: "notifications (snd (route_payment w req a t)) = []"
  by (simp add: route_payment_def stripe_notifications flutterwave_notifications)

lemma notify_calls: "adapter_calls (notify w p) = []"
  by (simp add: notify_def split: sum.split)

lemma route_ignores_pusher:
  "route_payment (w\<lparr>pusher_trigger := f\<rparr>) req a t = route_payment w req a t"
  by (simp add: route_payment_def processStripePayment_def processFlutterwavePayment_def
      flutterwave_request_def)

lemma ids_ignore_pusher:
  "new_transactionId (w\<lparr>pusher_trigger := f\<rparr>) = new_transactionId w"
  "new_reference (w\<lparr>pusher_trigger := f\<rparr>) = new_reference w"
  by (simp_all add: new_transactionId_def new_reference_def)

text \<open>The handler on a request whose amount passes both bounds.\<close>

lemma withdraw_valid:
  assumes "amount req = Some a" "100 \<le> a" "a \<le> 1000000"
  shows "withdraw w req =
    (case route_payment w req a (new_transactionId w) of
       (Inl err, called) \<Rightarrow>
         (\<lparr> status = 400, body = Failure (''Payment processing failed: '' @ err) \<rparr>,
          [Date_now, Math_random, Date_now] @ called
            @ [Console_error (Payment_processing_error err)])
     | (Inr details, called) \<Rightarrow>
         (\<lparr> status = 200,
             body = Success
               \<lparr> message = [Txt ''Withdrawal of KES '', Num a, Txt '' processed successfully''],
                 transactionId = new_transactionId w,
                 reference = new_reference w,
                 paymentGateway = or_default (paymentMethod req) ''flutterwave'',
                 fees = fees_for req,
                 netAmount = a - fees_for req,
                 estimatedCompletion = ''Instant to 24 hours'',
                 paymentDetails = details \<rparr> \<rparr>,
          [Date_now, Math_random, Date_now] @ called
            @ notify w (withdrawal_event w req a (new_transactionId w) (new_reference w))))"
  using assms by (simp add: withdraw_def Let_def)

text \<open>A success response is only sent for an amount within the bounds.\<close>

lemma success_valid:
  assumes "body (fst (withdraw w req)) = Success b" "amount req = Some a"
  shows "100 \<le> a \<and> a \<le> 1000000"
  using assms by (auto simp: withdraw_def split: if_splits)

text \<open>The sample requests in the calm world.\<close>

lemma calm_bank_route:
  "route_payment calm_world bank_request 1000 t =
     (Inr (Stripe_details ''stripe'' ''pi_1'' ''processing'' ''pi_1_secret''),
      [Stripe_create \<lparr> sp_amount = Math_round_times_100 1000, sp_currency = ''kes'',
          sp_description = [Txt ''Withdrawal ''] @ t @ [Txt '' for '', Txt ''John Doe''],
          sp_metadata_transactionId = t, sp_metadata_withdrawalMethod = ''bank'' \<rparr>,
       Console_log (Stripe_intent_created ''pi_1'')])"
  by (simp add: route_payment_def processStripePayment_def bank_request_def calm_world_def)

lemma calm_flutterwave_route:
  assumes "paymentMethod req \<noteq> Some ''stripe''"
  shows "route_payment calm_world req a t =
     (Inr (Flutterwave_details ''flutterwave'' (Some ''4242'') (Some ''success'') t),
      [Axios_post (flutterwave_request calm_world a (phoneNumber req) (accountName req) t),
       Console_log (Flutterwave_transfer_initiated
         (Some \<lparr> fw_status = Some ''success'', fw_data_id = Some ''4242'' \<rparr>))])"
  using assms by (simp add: route_payment_def processFlutterwavePayment_def calm_world_def)

lemma calm_flutterwave_outcome:
  assumes "amount req = Some a" "100 \<le> a" "a \<le> 1000000" "paymentMethod req \<noteq> Some ''stripe''"
  shows "succeeded (fst (withdraw calm_world req))"
    and "adapter_calls (snd (withdraw calm_world req)) = [Transfer_Network]"
  using assms(4)
  by (simp_all add: withdraw_valid[OF assms(1-3)] calm_flutterwave_route notify_calls
      adapter_calls_append)

subsection \<open>Routing\<close>




subsection \<open>Amount bounds\<close>

text \<open>
  C5. A request with amount below 100 is answered with \<open>success: false\<close> and the message
  naming the minimum of 100; a request with amount above 1,000,000 with \<open>success: false\<close>
  and the message naming the maximum of 1,000,000. In both cases the record of effects is
  empty: no clock or random draw for a transaction id, and no provider adapter call.
\<close>

theorem amount_out_of_bounds_rejected_first:
  assumes "amount req = Some a"
  shows "(a < 100 \<longrightarrow> withdraw w req =
            (\<lparr> status = 400, body = Failure ''Amount must be at least KES 100'' \<rparr>, []))
       \<and> (a > 1000000 \<longrightarrow> withdraw w req =
            (\<lparr> status = 400, body = Failure ''Amount cannot exceed KES 1,000,000'' \<rparr>, []))"
  using assms by (simp add: withdraw_def)

theorem amount_out_of_bounds_rejected_first_witness:
  "withdraw calm_world (bank_request\<lparr>amount := Some 50\<rparr>) =
     (\<lparr> status = 400, body = Failure ''Amount must be at least KES 100'' \<rparr>, [])
   \<and> withdraw calm_world (bank_request\<lparr>amount := Some 2000000\<rparr>) =
     (\<lparr> status = 400, body = Failure ''Amount cannot exceed KES 1,000,000'' \<rparr>, [])"
  using amount_out_of_bounds_rejected_first[of "bank_request\<lparr>amount := Some 50\<rparr>" 50 calm_world]
        amount_out_of_bounds_rejected_first
          [of "bank_request\<lparr>amount := Some 2000000\<rparr>" 2000000 calm_world]
  by simp

subsection \<open>Fees\<close>

text \<open>
  C6. In every success response (sent only to a request that passed the amount checks) the
  fee is 50 when \<open>withdrawalMethod\<close> is \<open>"bank"\<close> and 25 for every other value, absent
  included, and \<open>netAmount\<close> is the amount minus the fee.
\<close>

theorem fees_and_netAmount_of_success:
  assumes "amount req = Some a" "body (fst (withdraw w req)) = Success b"
  shows "fees b = (if withdrawalMethod req = Some ''bank'' then 50 else 25)
       \<and> netAmount b = a - fees b"
proof -
  have v: "100 \<le> a" "a \<le> 1000000"
    using success_valid[OF assms(2,1)] by simp_all
  obtain res called where r: "route_payment w req a (new_transactionId w) = (res, called)"
    by (cases "route_payment w req a (new_transactionId w)")
  show ?thesis
    using assms(2) r
    by (cases res) (auto simp: withdraw_valid[OF assms(1) v] fees_for_def)
qed

theorem fees_and_netAmount_of_success_witness:
  "(\<exists>b. body (fst (withdraw calm_world bank_request)) = Success b
        \<and> fees b = 50 \<and> netAmount b = 950)
   \<and> (\<exists>b. body (fst (withdraw calm_world bare_request)) = Success b
        \<and> fees b = 25 \<and> netAmount b = 975)"
proof -
  have a1: "amount bank_request = Some 1000" "withdrawalMethod bank_request = Some ''bank''"
    by (simp_all add: bank_request_def)
  have a2: "amount bare_request = Some 1000" "withdrawalMethod bare_request = None"
    "paymentMethod bare_request \<noteq> Some ''stripe''"
    by (simp_all add: bare_request_def)
  obtain b1 where s1: "body (fst (withdraw calm_world bank_request)) = Success b1"
    by (simp add: withdraw_valid[OF a1(1)] calm_bank_route)
  obtain b2 where s2: "body (fst (withdraw calm_world bare_request)) = Success b2"
    using a2(3) by (simp add: withdraw_valid[OF a2(1)] calm_flutterwave_route)
  have "fees b1 = 50 \<and> netAmount b1 = 950"
    using fees_and_netAmount_of_success[OF a1(1) s1] a1(2) by simp
  moreover have "fees b2 = 25 \<and> netAmount b2 = 975"
    using fees_and_netAmount_of_success[OF a2(1) s2] a2(2) by simp
  ultimately show ?thesis using s1 s2 by blast
qed

subsection \<open>Provider failure\<close>

text \<open>
  C7. When the selected provider adapter fails, the handler answers HTTP 400 with
  \<open>success: false\<close> and the message \<open>Payment processing failed: \<close> followed by the
  reason the adapter failed with; Pusher is not triggered, and the only adapter invoked
  is the selected one.
\<close>

theorem provider_failure_fails_fast:
  assumes "amount req = Some a" "100 \<le> a" "a \<le> 1000000"
      and "fst (route_payment w req a (new_transactionId w)) = Inl reason"
  shows "fst (withdraw w req) =
           \<lparr> status = 400, body = Failure (''Payment processing failed: '' @ reason) \<rparr>
       \<and> notifications (snd (withdraw w req)) = []
       \<and> adapter_calls (snd (withdraw w req)) =
           [if paymentMethod req = Some ''stripe'' then Card_Network else Transfer_Network]"
proof -
  obtain called where r: "route_payment w req a (new_transactionId w) = (Inl reason, called)"
    using assms(4) by (cases "route_payment w req a (new_transactionId w)") simp
  have c: "adapter_calls called =
      [if paymentMethod req = Some ''stripe'' then Card_Network else Transfer_Network]"
    using route_calls[of w req a "new_transactionId w"] r by simp
  have n: "notifications called = []"
    using route_notifications[of w req a "new_transactionId w"] r by simp
  show ?thesis
    using r c n
    by (simp add: withdraw_valid[OF assms(1-3)] adapter_calls_append notifications_append)
qed

theorem provider_failure_fails_fast_witness:
  "fst (withdraw declining_world bank_request) =
     \<lparr> status = 400,
       body = Failure ''Payment processing failed: Stripe error: card declined'' \<rparr>
   \<and> notifications (snd (withdraw declining_world bank_request)) = []
   \<and> adapter_calls (snd (withdraw declining_world bank_request)) = [Card_Network]"
proof -
  have a: "amount bank_request = Some 1000"
    by (simp add: bank_request_def)
  have r: "fst (route_payment declining_world bank_request 1000
                  (new_transactionId declining_world)) = Inl ''Stripe error: card declined''"
    by (simp add: route_payment_def processStripePayment_def bank_request_def
        declining_world_def)
  show ?thesis
    using provider_failure_fails_fast[OF a _ _ r] by (simp add: bank_request_def)
qed

subsection \<open>Notifier failure\<close>

text \<open>
  C8. When the provider adapter succeeds and \<open>pusher.trigger\<close> fails, the error is
  caught and logged (the last effect is the console line with its message), and the
  response is the \<open>success: true\<close> response with the transaction id, reference, fees,
  net amount and payment details already computed: the same response as in the world
  where Pusher accepts the event.
\<close>

theorem notifier_failure_keeps_response:
  assumes "amount req = Some a" "100 \<le> a" "a \<le> 1000000"
      and "fst (route_payment w req a (new_transactionId w)) = Inr details"
      and "pusher_trigger w ''withdrawal-channel'' ''withdrawal-event''
             (withdrawal_event w req a (new_transactionId w) (new_reference w)) = Inl err"
  shows "fst (withdraw w req) =
           \<lparr> status = 200,
             body = Success
               \<lparr> message = [Txt ''Withdrawal of KES '', Num a, Txt '' processed successfully''],
                 transactionId = new_transactionId w,
                 reference = new_reference w,
                 paymentGateway = or_default (paymentMethod req) ''flutterwave'',
                 fees = fees_for req,
                 netAmount = a - fees_for req,
                 estimatedCompletion = ''Instant to 24 hours'',
                 paymentDetails = details \<rparr> \<rparr>
       \<and> last (snd (withdraw w req)) = Console_error (Pusher_notification_error err)
       \<and> fst (withdraw (w\<lparr>pusher_trigger := \<lambda>c e p. Inr ()\<rparr>) req) = fst (withdraw w req)"
proof -
  let ?w' = "w\<lparr>pusher_trigger := \<lambda>c e p. Inr ()\<rparr>"
  obtain called where r: "route_payment w req a (new_transactionId w) = (Inr details, called)"
    using assms(4) by (cases "route_payment w req a (new_transactionId w)") simp
  have r': "route_payment ?w' req a (new_transactionId ?w') = (Inr details, called)"
    using r by (simp add: route_ignores_pusher ids_ignore_pusher)
  have 1: "fst (withdraw w req) =
           \<lparr> status = 200,
             body = Success
               \<lparr> message = [Txt ''Withdrawal of KES '', Num a, Txt '' processed successfully''],
                 transactionId = new_transactionId w,
                 reference = new_reference w,
                 paymentGateway = or_default (paymentMethod req) ''flutterwave'',
                 fees = fees_for req,
                 netAmount = a - fees_for req,
                 estimatedCompletion = ''Instant to 24 hours'',
                 paymentDetails = details \<rparr> \<rparr>"
    using r by (simp add: withdraw_valid[OF assms(1-3)])
  have 2: "last (snd (withdraw w req)) = Console_error (Pusher_notification_error err)"
    using r assms(5) by (simp add: withdraw_valid[OF assms(1-3)] notify_def)
  have 3: "fst (withdraw ?w' req) = fst (withdraw w req)"
    using r' 1 by (simp add: withdraw_valid[of req a ?w', OF assms(1-3)] ids_ignore_pusher)
  show ?thesis
    using 1 2 3 by simp
qed

theorem notifier_failure_keeps_response_witness:
  "fst (withdraw unnotified_world bank_request) = fst (withdraw calm_world bank_request)
   \<and> succeeded (fst (withdraw unnotified_world bank_request))
   \<and> last (snd (withdraw unnotified_world bank_request)) =
       Console_error (Pusher_notification_error ''pusher down'')"
proof -
  have a: "amount bank_request = Some 1000"
    by (simp add: bank_request_def)
  have r: "fst (route_payment unnotified_world bank_request 1000
                  (new_transactionId unnotified_world)) =
             Inr (Stripe_details ''stripe'' ''pi_1'' ''processing'' ''pi_1_secret'')"
    by (simp add: unnotified_world_def route_ignores_pusher calm_bank_route)
  have p: "pusher_trigger unnotified_world ''withdrawal-channel'' ''withdrawal-event''
             (withdrawal_event unnotified_world bank_request 1000
                (new_transactionId unnotified_world) (new_reference unnotified_world)) =
             Inl ''pusher down''"
    by (simp add: unnotified_world_def)
  have e: "unnotified_world\<lparr>pusher_trigger := \<lambda>c e p. Inr ()\<rparr> = calm_world"
    by (simp add: unnotified_world_def calm_world_def)
  show ?thesis
    using notifier_failure_keeps_response[OF a _ _ r p] by (simp add: e)
qed

subsection \<open>The reported gateway\<close>

text \<open>
  C9. In every success response \<open>paymentGateway\<close> is the request's \<open>paymentMethod\<close>
  string when that is truthy (present and not empty) and \<open>flutterwave\<close> otherwise. Hence
  there is a request, with \<open>paymentMethod\<close> \<open>"paypal"\<close>, for which the
  Transfer-Network (Flutterwave) adapter is the one invoked and the response reports
  \<open>paypal\<close> as the gateway.
\<close>

theorem paymentGateway_echoes_paymentMethod:
  "(body (fst (withdraw w req)) = Success b \<longrightarrow>
      paymentGateway b =
        (case paymentMethod req of
           None \<Rightarrow> ''flutterwave''
         | Some s \<Rightarrow> if s = [] then ''flutterwave'' else s))
   \<and> (\<exists>w' req' b'. paymentMethod req' = Some ''paypal''
         \<and> body (fst (withdraw w' req')) = Success b'
         \<and> adapter_calls (snd (withdraw w' req')) = [Transfer_Network]
         \<and> paymentGateway b' = ''paypal'')"
proof
  show "body (fst (withdraw w req)) = Success b \<longrightarrow>
      paymentGateway b =
        (case paymentMethod req of
           None \<Rightarrow> ''flutterwave''
         | Some s \<Rightarrow> if s = [] then ''flutterwave'' else s)"
  proof
    assume s: "body (fst (withdraw w req)) = Success b"
    then obtain a where a: "amount req = Some a"
      by (cases "amount req") (simp_all add: withdraw_def)
    have v: "100 \<le> a" "a \<le> 1000000"
      using success_valid[OF s a] by simp_all
    obtain res called where r: "route_payment w req a (new_transactionId w) = (res, called)"
      by (cases "route_payment w req a (new_transactionId w)")
    show "paymentGateway b =
        (case paymentMethod req of
           None \<Rightarrow> ''flutterwave''
         | Some s \<Rightarrow> if s = [] then ''flutterwave'' else s)"
      using s r
      by (cases res) (auto simp: withdraw_valid[OF a v] or_default_def split: option.split)
  qed
next
  have a: "amount paypal_request = Some 1000"
    and p: "paymentMethod paypal_request = Some ''paypal''"
    by (simp_all add: paypal_request_def bare_request_def)
  have n: "paymentMethod paypal_request \<noteq> Some ''stripe''"
    using p by simp
  let ?b = "\<lparr> message = [Txt ''Withdrawal of KES '', Num 1000, Txt '' processed successfully''],
       transactionId = new_transactionId calm_world, reference = new_reference calm_world,
       paymentGateway = ''paypal'', fees = fees_for paypal_request,
       netAmount = 1000 - fees_for paypal_request,
       estimatedCompletion = ''Instant to 24 hours'',
       paymentDetails = Flutterwave_details ''flutterwave'' (Some ''4242'') (Some ''success'')
                          (new_transactionId calm_world) \<rparr>"
  have b: "body (fst (withdraw calm_world paypal_request)) = Success ?b"
    using n p by (simp add: withdraw_valid[OF a] calm_flutterwave_route or_default_def)
  have c: "adapter_calls (snd (withdraw calm_world paypal_request)) = [Transfer_Network]"
    using calm_flutterwave_outcome(2)[OF a _ _ n] by simp
  have g: "paymentGateway ?b = ''paypal''"
    by simp
  show "\<exists>w' req' b'. paymentMethod req' = Some ''paypal''
         \<and> body (fst (withdraw w' req')) = Success b'
         \<and> adapter_calls (snd (withdraw w' req')) = [Transfer_Network]
         \<and> paymentGateway b' = ''paypal''"
    using p b c g by blast
qed

theorem paymentGateway_echoes_paymentMethod_witness:
  "(\<exists>b. body (fst (withdraw calm_world paypal_request)) = Success b
        \<and> paymentGateway b = ''paypal'')
   \<and> (\<exists>b. body (fst (withdraw calm_world bare_request)) = Success b
        \<and> paymentGateway b = ''flutterwave'')"
proof -
  have a1: "amount paypal_request = Some 1000"
    and p1: "paymentMethod paypal_request = Some ''paypal''"
    by (simp_all add: paypal_request_def bare_request_def)
  have a2: "amount bare_request = Some 1000"
    and p2: "paymentMethod bare_request = None"
    by (simp_all add: bare_request_def)
  obtain b1 where s1: "body (fst (withdraw calm_world paypal_request)) = Success b1"
    using p1 by (simp add: withdraw_valid[OF a1] calm_flutterwave_route)
  obtain b2 where s2: "body (fst (withdraw calm_world bare_request)) = Success b2"
    using p2 by (simp add: withdraw_valid[OF a2] calm_flutterwave_route)
  have "paymentGateway b1 = ''paypal''"
    using paymentGateway_echoes_paymentMethod[of calm_world paypal_request b1] s1 p1 by simp
  moreover have "paymentGateway b2 = ''flutterwave''"
    using paymentGateway_echoes_paymentMethod[of calm_world bare_request b2] s2 p2 by simp
  ultimately show ?thesis
    using s1 s2 by blast
qed

subsection \<open>Recipient defaults of the Flutterwave adapter\<close>

text \<open>
  C10. Every call of the Flutterwave adapter posts one transfer. When \<open>phoneNumber\<close> is
  absent or empty its \<open>account_number\<close> is \<open>1234567890\<close>, and when \<open>accountName\<close> is
  absent or empty its \<open>beneficiary_name\<close> is \<open>Beneficiary\<close>. The adapter never rejects
  for missing recipient fields: it returns a result exactly when the upstream call
  resolves with a body.
\<close>

theorem flutterwave_defaults_recipient_fields:
  "(\<exists>rest. snd (processFlutterwavePayment w amt phone name txn)
              = Axios_post (flutterwave_request w amt phone name txn) # rest
          \<and> adapter_calls rest = [])
   \<and> (\<not> truthy phone \<longrightarrow>
         account_number (flutterwave_request w amt phone name txn) = ''1234567890'')
   \<and> (\<not> truthy name \<longrightarrow>
         beneficiary_name (flutterwave_request w amt phone name txn) = ''Beneficiary'')
   \<and> ((\<exists>r. fst (processFlutterwavePayment w amt phone name txn) = Inr r)
         \<longleftrightarrow> (\<exists>d. axios_post w (flutterwave_request w amt phone name txn) = Inr (Some d)))"
proof (intro conjI)
  show "\<exists>rest. snd (processFlutterwavePayment w amt phone name txn)
              = Axios_post (flutterwave_request w amt phone name txn) # rest
          \<and> adapter_calls rest = []"
    by (simp add: processFlutterwavePayment_def Let_def split: sum.split option.split)
  show "\<not> truthy phone \<longrightarrow>
         account_number (flutterwave_request w amt phone name txn) = ''1234567890''"
    by (cases phone) (simp_all add: flutterwave_request_def or_default_def)
  show "\<not> truthy name \<longrightarrow>
         beneficiary_name (flutterwave_request w amt phone name txn) = ''Beneficiary''"
    by (cases name) (simp_all add: flutterwave_request_def or_default_def)
  show "(\<exists>r. fst (processFlutterwavePayment w amt phone name txn) = Inr r)
         \<longleftrightarrow> (\<exists>d. axios_post w (flutterwave_request w amt phone name txn) = Inr (Some d))"
    by (simp add: processFlutterwavePayment_def Let_def split: sum.split option.split)
qed

theorem flutterwave_defaults_recipient_fields_witness:
  "account_number (flutterwave_request calm_world 1000 None (Some '''') [Txt ''TXN_1''])
     = ''1234567890''
   \<and> beneficiary_name (flutterwave_request calm_world 1000 None (Some '''') [Txt ''TXN_1''])
       = ''Beneficiary''
   \<and> (\<exists>r. fst (processFlutterwavePayment calm_world 1000 None (Some '''') [Txt ''TXN_1''])
            = Inr r)"
proof -
  have "\<exists>d. axios_post calm_world
               (flutterwave_request calm_world 1000 None (Some '''') [Txt ''TXN_1''])
             = Inr (Some d)"
    by (simp add: calm_world_def)
  then show ?thesis
    using flutterwave_defaults_recipient_fields
            [of calm_world 1000 None "Some ''''" "[Txt ''TXN_1'']"]
    by simp
qed

section \<open>Method-specific validation\<close>

text \<open>
  The checks of the withdrawal method, the bank details and the M-Pesa number are in the
  legacy variant only (lines 77-99, on its fields \<open>method\<close> and \<open>accountDetails\<close>). The
  gateway variant checks the amount and nothing else.
\<close>

subsection \<open>Missing method\<close>

text \<open>
  C2, as amended. In the legacy variant, every request whose amount passes the amount
  checks (at least 100, at most the demo balance of 100,000) and whose \<open>method\<close> is
  neither \<open>"bank"\<close> nor \<open>"mpesa"\<close>, absent included, is answered with
  \<open>success: false\<close> and the message asking to select a withdrawal method; the only
  effect is the console line of the request, and no provider is called.
\<close>

theorem legacy_missing_method_rejected:
  assumes "lg_amount req = Some a" "100 \<le> a" "a \<le> 100000"
      and "lg_method req \<notin> {Some ''bank'', Some ''mpesa''}"
  shows "legacy_withdraw w req =
     (\<lparr> lg_status = 200,
        lg_body = Rejected ''Please select withdrawal method (bank or mpesa)'' \<rparr>,
      [L_Console_log (Withdrawal_request (lg_amount req) (lg_method req)
         (lg_accountDetails req) (lg_phoneNumber req))])"
  using assms by (simp add: legacy_withdraw_def legacy_reject_def demoBalance_def)

theorem legacy_missing_method_rejected_witness:
  "legacy_withdraw legacy_sample_world legacy_bare_request =
     (\<lparr> lg_status = 200,
        lg_body = Rejected ''Please select withdrawal method (bank or mpesa)'' \<rparr>,
      [L_Console_log (Withdrawal_request (Some 1000) None None None)])"
  using legacy_missing_method_rejected[of legacy_bare_request 1000 legacy_sample_world]
  by (simp add: legacy_bare_request_def)

text \<open>
  C2 as stated fails on the gateway variant: a request for 1000 with no
  \<open>withdrawalMethod\<close> gets \<open>success: true\<close>, and the Flutterwave adapter is invoked.
\<close>

theorem gateway_accepts_absent_withdrawalMethod:
  "withdrawalMethod bare_request = None
   \<and> succeeded (fst (withdraw calm_world bare_request))
   \<and> adapter_calls (snd (withdraw calm_world bare_request)) = [Transfer_Network]"
proof -
  have a: "amount bare_request = Some 1000"
    and m: "withdrawalMethod bare_request = None"
    and n: "paymentMethod bare_request \<noteq> Some ''stripe''"
    by (simp_all add: bare_request_def)
  show ?thesis
    using m calm_flutterwave_outcome[OF a _ _ n] by simp
qed

subsection \<open>Invalid M-Pesa number\<close>




subsection \<open>Missing bank details\<close>




end
